theory Spec2Isabelle
  imports Complex_Main
begin

section \<open>build\_mapbox\_geojson.py: the CSV to GeoJSON transform\<close>

text \<open>
  The script reads a CSV table through \<^verbatim>\<open>csv.DictReader\<close>, resolves the latitude and
  longitude columns through a fixed alias table, coerces the cells and writes one GeoJSON
  FeatureCollection. This theory embeds its functions in HOL, in the order of the source,
  and proves the properties stated of them.

  Conventions of the embedding.
  \<^item> A Python \<^verbatim>\<open>str\<close> is a \<^typ>\<open>string\<close>; a \<^typ>\<open>char\<close> stands for the code point of the
    same number, so the model covers the code points below 256. The Unicode spaces and
    decimal digits above that range, which \<^verbatim>\<open>str.strip\<close> and \<^verbatim>\<open>float\<close> also accept, are
    outside the model.
  \<^item> \<^verbatim>\<open>None\<close> is \<^term>\<open>None\<close>: a cell is a \<^typ>\<open>string option\<close>, and a function that returns
    \<^verbatim>\<open>None\<close> on failure returns an option.
  \<^item> A Python \<^verbatim>\<open>float\<close> is a \<^verbatim>\<open>pyfloat\<close>: a sign and the exact rational magnitude of the
    binary64 number, an infinity, or NaN.
  \<^item> A \<^verbatim>\<open>dict\<close> is an association list in insertion order.
\<close>

subsection \<open>The built-ins the script calls\<close>

text \<open>
  \<^verbatim>\<open>str.isspace\<close> on one character below 256: TAB, LF, VT, FF, CR, the four separators
  FS, GS, RS, US (0x1C to 0x1F), the space, NEL (0x85) and the no-break space (0xA0).
\<close>

definition isspace :: "char \<Rightarrow> bool" where
  "isspace c =
     (c \<in> set [CHR 0x09, CHR 0x0A, CHR 0x0B, CHR 0x0C, CHR 0x0D, CHR 0x1C, CHR 0x1D, CHR 0x1E,
                CHR 0x1F, CHR 0x20, CHR 0x85, CHR 0xA0])"

text \<open>\<^verbatim>\<open>s.strip()\<close>: the whitespace at both ends is removed.\<close>

definition strip :: "string \<Rightarrow> string" where
  "strip s = rev (dropWhile isspace (rev (dropWhile isspace s)))"

text \<open>
  \<^verbatim>\<open>s.replace(old, new)\<close> for a one-character \<^verbatim>\<open>old\<close>, as the script calls it: every
  occurrence of the character is replaced.
\<close>

definition replace :: "char \<Rightarrow> string \<Rightarrow> string \<Rightarrow> string" where
  "replace old new s = concat (map (\<lambda>c. if c = old then new else [c]) s)"

datatype pyfloat = Finite bool rat | Infinity bool | NaN

text \<open>
  \<^verbatim>\<open>float(s)\<close> on a string. CPython first trims whitespace, but with a smaller class than
  \<^verbatim>\<open>str.strip\<close>: the separators 0x1C to 0x1F are not skipped
  (\<^verbatim>\<open>float("\x1c1")\<close> raises \<^verbatim>\<open>ValueError\<close>). What is left must be
  \<^verbatim>\<open>[sign] (inf | infinity | nan)\<close> in any capitalisation, or
  \<^verbatim>\<open>[sign] (digitpart ["." [digitpart]] | "." digitpart) [("e" | "E") [sign] digitpart]\<close>
  where \<^verbatim>\<open>digitpart\<close> is a run of digits that may hold single underscores between
  digits. The value is the binary64 number nearest to the decimal, ties to even; a decimal
  beyond the range becomes an infinity. \<^term>\<open>None\<close> stands for \<^verbatim>\<open>ValueError\<close>.
\<close>

definition float_isspace :: "char \<Rightarrow> bool" where
  "float_isspace c =
     (c \<in> set [CHR 0x09, CHR 0x0A, CHR 0x0B, CHR 0x0C, CHR 0x0D, CHR 0x20, CHR 0x85, CHR 0xA0])"

definition isdigit :: "char \<Rightarrow> bool" where
  "isdigit c = (c \<in> set ''0123456789'')"

definition digit_val :: "char \<Rightarrow> int" where
  "digit_val c = of_char c - 48"

definition tolower :: "char \<Rightarrow> char" where
  "tolower c =
     (if 65 \<le> (of_char c :: int) \<and> (of_char c :: int) \<le> 90
      then char_of (of_char c + (32 :: int)) else c)"

fun digits_rest :: "string \<Rightarrow> string \<times> string" where
  "digits_rest [] = ([], [])"
| "digits_rest [c] = (if isdigit c then ([c], []) else ([], [c]))"
| "digits_rest (c # d # cs) =
     (if isdigit c then (case digits_rest (d # cs) of (ds, r) \<Rightarrow> (c # ds, r))
      else if c = CHR ''_'' \<and> isdigit d then (case digits_rest cs of (ds, r) \<Rightarrow> (d # ds, r))
      else ([], c # d # cs))"

definition digitpart :: "string \<Rightarrow> (string \<times> string) option" where
  "digitpart s =
     (case s of
        [] \<Rightarrow> None
      | c # cs \<Rightarrow>
          if isdigit c then (case digits_rest cs of (ds, r) \<Rightarrow> Some (c # ds, r)) else None)"

definition int_of_digits :: "string \<Rightarrow> int" where
  "int_of_digits ds = foldl (\<lambda>n c. 10 * n + digit_val c) 0 ds"

definition sign_of :: "string \<Rightarrow> bool \<times> string" where
  "sign_of s =
     (case s of
        [] \<Rightarrow> (False, [])
      | c # cs \<Rightarrow>
          if c = CHR ''-'' then (True, cs)
          else if c = CHR ''+'' then (False, cs)
          else (False, c # cs))"

text \<open>The number of bits of a positive integer.\<close>

function bitlen :: "int \<Rightarrow> int" where
  "bitlen n = (if n \<le> 0 then 0 else 1 + bitlen (n div 2))"
  by pat_completeness auto
termination
  by (relation "measure nat") auto

text \<open>\<open>scaled num den k\<close> is the fraction \<open>num / (den * 2 ^ k)\<close> for an integer \<open>k\<close>.\<close>

definition scaled :: "int \<Rightarrow> int \<Rightarrow> int \<Rightarrow> int \<times> int" where
  "scaled num den k =
     (if 0 \<le> k then (num, den * 2 ^ nat k) else (num * 2 ^ nat (- k), den))"

definition round_half_even :: "int \<Rightarrow> int \<Rightarrow> int" where
  "round_half_even n d =
     (let q = n div d; r = n mod d
      in if d < 2 * r \<or> (2 * r = d \<and> odd q) then q + 1 else q)"

text \<open>
  The binary64 number nearest to \<open>m * 10 ^ e\<close>: a 53-bit significand \<open>q\<close> and a binary
  exponent \<open>k\<close>, not below \<open>- 1074\<close> (the subnormal numbers), with the value \<open>q * 2 ^ k\<close>.
\<close>

definition nearest_double :: "bool \<Rightarrow> int \<Rightarrow> int \<Rightarrow> pyfloat" where
  "nearest_double neg m e =
     (if m = 0 then Finite neg 0
      else
        let num = (if 0 \<le> e then m * 10 ^ nat e else m);
            den = (if 0 \<le> e then 1 else 10 ^ nat (- e));
            k0 = bitlen num - bitlen den - 53;
            k1 = (case scaled num den k0 of
                    (n0, d0) \<Rightarrow> if 2 ^ 53 \<le> n0 div d0 then k0 + 1 else k0);
            k = max k1 (- 1074);
            q = (case scaled num den k of (n, d) \<Rightarrow> round_half_even n d)
        in if 971 < k \<or> (k = 971 \<and> q = 2 ^ 53) then Infinity neg
           else Finite neg
                  (if 0 \<le> k then of_int (q * 2 ^ nat k)
                   else of_int q / of_int (2 ^ nat (- k))))"

definition exponent_of :: "string \<Rightarrow> int option" where
  "exponent_of s =
     (case s of
        [] \<Rightarrow> Some 0
      | c # cs \<Rightarrow>
          if c = CHR ''e'' \<or> c = CHR ''E'' then
            (case sign_of cs of
               (neg, ds) \<Rightarrow>
                 (case digitpart ds of
                    Some (es, []) \<Rightarrow>
                      Some (if neg then - int_of_digits es else int_of_digits es)
                  | _ \<Rightarrow> None))
          else None)"

text \<open>The decimal \<open>m * 10 ^ e\<close> that a \<^verbatim>\<open>floatnumber\<close> denotes.\<close>

definition floatnumber :: "string \<Rightarrow> (int \<times> int) option" where
  "floatnumber s =
     (case digitpart s of
        Some (ip, r) \<Rightarrow>
          (case r of
             [] \<Rightarrow> Some (int_of_digits ip, 0)
           | c # r' \<Rightarrow>
               if c = CHR ''.'' then
                 (case digitpart r' of
                    Some (fp, r'') \<Rightarrow>
                      map_option (\<lambda>e. (int_of_digits (ip @ fp), e - int (length fp)))
                        (exponent_of r'')
                  | None \<Rightarrow> map_option (\<lambda>e. (int_of_digits ip, e)) (exponent_of r'))
               else map_option (\<lambda>e. (int_of_digits ip, e)) (exponent_of r))
      | None \<Rightarrow>
          (case s of
             [] \<Rightarrow> None
           | c # r' \<Rightarrow>
               if c = CHR ''.'' then
                 (case digitpart r' of
                    Some (fp, r'') \<Rightarrow>
                      map_option (\<lambda>e. (int_of_digits fp, e - int (length fp)))
                        (exponent_of r'')
                  | None \<Rightarrow> None)
               else None))"

definition float_of_str :: "string \<Rightarrow> pyfloat option" where
  "float_of_str s =
     (let t = rev (dropWhile float_isspace (rev (dropWhile float_isspace s)))
      in case sign_of t of
           (neg, u) \<Rightarrow>
             if map tolower u = ''inf'' \<or> map tolower u = ''infinity'' then Some (Infinity neg)
             else if map tolower u = ''nan'' then Some NaN
             else map_option (\<lambda>(m, e). nearest_double neg m e) (floatnumber u))"

text \<open>
  \<^verbatim>\<open>int(x)\<close> on a float truncates towards zero; on an infinity it raises
  \<^verbatim>\<open>OverflowError\<close> and on NaN \<^verbatim>\<open>ValueError\<close>, both \<^term>\<open>None\<close> here.
\<close>

definition int_of_float :: "pyfloat \<Rightarrow> int option" where
  "int_of_float x =
     (case x of
        Finite neg q \<Rightarrow> Some (if neg then - \<lfloor>q\<rfloor> else \<lfloor>q\<rfloor>)
      | Infinity neg \<Rightarrow> None
      | NaN \<Rightarrow> None)"

text \<open>
  \<^verbatim>\<open>d[k] = v\<close> on a dict: an existing key keeps its place, a new key goes to the end.
\<close>

fun setitem :: "('k \<times> 'v) list \<Rightarrow> 'k \<Rightarrow> 'v \<Rightarrow> ('k \<times> 'v) list" where
  "setitem [] k v = [(k, v)]"
| "setitem ((k', v') # d) k v =
     (if k' = k then (k, v) # d else (k', v') # setitem d k v)"

text \<open>
  Truth value of a cell: \<^verbatim>\<open>None\<close> and the empty string are false. \<^verbatim>\<open>a or b\<close> is
  \<^verbatim>\<open>a\<close> when \<^verbatim>\<open>a\<close> is true and \<^verbatim>\<open>b\<close> otherwise.
\<close>

definition truthy :: "string option \<Rightarrow> bool" where
  "truthy v = (case v of None \<Rightarrow> False | Some s \<Rightarrow> s \<noteq> [])"

definition py_or :: "string option \<Rightarrow> string option \<Rightarrow> string option" where
  "py_or a b = (if truthy a then a else b)"

subsection \<open>Constants\<close>

definition INPUT_CANDIDATES :: "string list" where
  "INPUT_CANDIDATES = [''master clinic mapbox file.csv'', ''master clinic mapbox file.cvs'']"

definition OUTPUT_FILE :: string where
  "OUTPUT_FILE = ''MapBox Dataset.geojson''"

text \<open>
  \<^verbatim>\<open>HEADER_ALIASES\<close> has the two keys \<^verbatim>\<open>"latitude"\<close> and \<^verbatim>\<open>"longitude"\<close>; the script reads
  it only at these two literals, so each entry is a constant.
\<close>

definition HEADER_ALIASES_latitude :: "string list" where
  "HEADER_ALIASES_latitude = [''Latitude'', ''Lat'', ''LAT'', ''lat'', ''latitude'']"

definition HEADER_ALIASES_longitude :: "string list" where
  "HEADER_ALIASES_longitude =
     [''Longitude'', ''Longitutde'', ''Long'', ''Lng'', ''LON'', ''lon'', ''lng'', ''longitude'']"

subsection \<open>The functions of the script\<close>

text \<open>
  The working directory is what the script sees of it: \<open>path_exists\<close> is
  \<^verbatim>\<open>os.path.exists\<close>, and \<open>dict_reader\<close> is what \<^verbatim>\<open>csv.DictReader\<close> makes of the file
  of a name. A table is the reader's \<^verbatim>\<open>fieldnames\<close> (\<^verbatim>\<open>None\<close> for an empty file) and the
  rows it yields, each a dict from column name to cell; a cell is \<^verbatim>\<open>None\<close> where a record
  is shorter than the header. A record longer than the header gives the dict one more
  entry under the key \<^verbatim>\<open>None\<close>, which is left out of the model. Errors of opening,
  decoding or writing a file end the run with an exception and are not modelled.
\<close>

type_synonym row = "(string \<times> string option) list"

record table =
  fieldnames :: "string list option"
  rows :: "row list"

record directory =
  path_exists :: "string \<Rightarrow> bool"
  dict_reader :: "string \<Rightarrow> table"

text \<open>\<^verbatim>\<open>row.get(key)\<close>: \<^verbatim>\<open>None\<close> for a missing key as for a \<^verbatim>\<open>None\<close> cell.\<close>

definition get :: "row \<Rightarrow> string \<Rightarrow> string option" where
  "get row key = (case map_of row key of None \<Rightarrow> None | Some v \<Rightarrow> v)"

fun find_input_file :: "directory \<Rightarrow> string list \<Rightarrow> string option" where
  "find_input_file dir [] = None"
| "find_input_file dir (name # names) =
     (if path_exists dir name then Some name else find_input_file dir names)"

fun pick_header :: "string list \<Rightarrow> string list \<Rightarrow> string option" where
  "pick_header row_fieldnames [] = None"
| "pick_header row_fieldnames (a # aliases) =
     (if a \<in> set row_fieldnames then Some a else pick_header row_fieldnames aliases)"

definition to_float :: "string option \<Rightarrow> pyfloat option" where
  "to_float val =
     (case val of
        None \<Rightarrow> None
      | Some v \<Rightarrow>
          let s = strip v
          in if s = [] then None
             else float_of_str (replace CHR ''$'' [] (replace CHR '','' [] s)))"

definition to_int :: "string option \<Rightarrow> int option" where
  "to_int val =
     (case val of
        None \<Rightarrow> None
      | Some v \<Rightarrow>
          let s = strip v
          in if s = [] then None
             else (case float_of_str (replace CHR ''$'' [] (replace CHR '','' [] s)) of
                     None \<Rightarrow> None
                   | Some f \<Rightarrow> int_of_float f))"

datatype pyval = PNone | PFloat pyfloat | PInt int | PStr string

definition numeric_int_cols :: "string list" where
  "numeric_int_cols =
     [''Event #'', ''Expedition #'', ''Year'', ''ZipCode'',
      ''Total Volunteers'', ''Total Patients'',
      ''Animals Served'', ''Extractions'', ''Fillings'', ''Cleanings'',
      ''Glasses'', ''Eye Exams'', ''Medical Exams'', ''Women'' @ [CHR 0x27] @ ''s Health'']"

definition to_number_if_possible :: "string \<Rightarrow> string option \<Rightarrow> pyval" where
  "to_number_if_possible key val =
     (case val of
        None \<Rightarrow> PNone
      | Some v \<Rightarrow>
          let s = strip v
          in if s = [] then PNone
             else if key = ''Total Value of Care'' then
               (case to_float (Some s) of Some f \<Rightarrow> PFloat f | None \<Rightarrow> PStr s)
             else if key \<in> set numeric_int_cols then
               (case to_int (Some s) of Some n \<Rightarrow> PInt n | None \<Rightarrow> PStr s)
             else PStr s)"

subsection \<open>The main program\<close>

text \<open>
  The output document. The JSON key \<^verbatim>\<open>"type"\<close> is the field \<open>ftype\<close> of a feature,
  \<open>gtype\<close> of its geometry and \<open>ctype\<close> of the collection.
\<close>

record point =
  gtype :: string
  coordinates :: "pyfloat list"

record feature =
  ftype :: string
  geometry :: point
  properties :: "(string \<times> pyval) list"

record collection =
  ctype :: string
  features :: "feature list"

text \<open>
  The lines the script prints. A line that formats values with \<^verbatim>\<open>repr\<close> or as decimal
  numbers is kept as its values: \<open>Skipped i lat lon event city\<close> is the line
  \<^verbatim>\<open>SKIPPED row {i}: lat=... lon=... event=... city=...\<close>, \<open>Found_headers\<close> the line
  \<^verbatim>\<open>Found headers: [...]\<close>, and \<open>Counts n k\<close> the line
  \<^verbatim>\<open>Features: {n}  Skipped (missing lat/lon): {k}\<close>.
\<close>

datatype line =
  Text string
| Skipped nat "string option" "string option" "string option" "string option"
| Found_headers "string list"
| Counts nat nat

text \<open>
  The result of a run: the exit status, the printed lines, and the file written, if any,
  as its name and its document.
\<close>

record result =
  exit_status :: int
  stdout :: "line list"
  written :: "(string \<times> collection) option"

text \<open>Lines 128 to 148: the feature of row \<open>i\<close>, whose coordinates parsed.\<close>

definition build_props :: "string \<Rightarrow> string \<Rightarrow> row \<Rightarrow> (string \<times> pyval) list" where
  "build_props lat_key lon_key row =
     foldl (\<lambda>props (k, v).
              if k = lat_key \<or> k = lon_key then props
              else setitem props k (to_number_if_possible k v))
       [] row"

definition make_feature ::
  "string \<Rightarrow> string \<Rightarrow> nat \<Rightarrow> row \<Rightarrow> pyfloat \<Rightarrow> pyfloat \<Rightarrow> feature" where
  "make_feature lat_key lon_key i row lat lon =
     (let props0 = build_props lat_key lon_key row;
          event_id = py_or (py_or (get row ''Event #'') (get row ''Event#'')) (get row ''Event'');
          expedition_id =
            py_or (py_or (get row ''Expedition #'') (get row ''Expedition#''))
              (get row ''Expedition'');
          props1 = setitem props0 ''_row'' (PInt (int i));
          props2 =
            (case event_id of
               None \<Rightarrow> props1
             | Some e \<Rightarrow> if e = [] then props1 else setitem props1 ''_event_id'' (PStr (strip e)));
          props3 =
            (case expedition_id of
               None \<Rightarrow> props2
             | Some e \<Rightarrow>
                 if e = [] then props2 else setitem props2 ''_expedition_id'' (PStr (strip e)))
      in \<lparr>ftype = ''Feature'',
          geometry = \<lparr>gtype = ''Point'', coordinates = [lon, lat]\<rparr>,
          properties = props3\<rparr>)"

text \<open>
  Lines 113 to 148: the loop over the rows, numbered from 1, on the features so far, the
  skip counter and the lines printed so far.
\<close>

record loop_state =
  feats :: "feature list"
  skipped :: nat
  printed :: "line list"

definition skip_row :: "string \<Rightarrow> string \<Rightarrow> loop_state \<Rightarrow> nat \<Rightarrow> row \<Rightarrow> loop_state" where
  "skip_row lat_key lon_key st i row =
     st\<lparr>skipped := skipped st + 1,
        printed := printed st @
          [Skipped i (get row lat_key) (get row lon_key) (get row ''Event #'') (get row ''City'')]\<rparr>"

definition loop_body :: "string \<Rightarrow> string \<Rightarrow> loop_state \<Rightarrow> nat \<times> row \<Rightarrow> loop_state" where
  "loop_body lat_key lon_key st ir =
     (case ir of
        (i, row) \<Rightarrow>
          (case to_float (get row lat_key) of
             None \<Rightarrow> skip_row lat_key lon_key st i row
           | Some lat \<Rightarrow>
               (case to_float (get row lon_key) of
                  None \<Rightarrow> skip_row lat_key lon_key st i row
                | Some lon \<Rightarrow>
                    st\<lparr>feats := feats st @ [make_feature lat_key lon_key i row lat lon]\<rparr>)))"

definition rows_loop :: "string \<Rightarrow> string \<Rightarrow> row list \<Rightarrow> loop_state" where
  "rows_loop lat_key lon_key rs =
     foldl (loop_body lat_key lon_key) \<lparr>feats = [], skipped = 0, printed = []\<rparr> (enumerate 1 rs)"

text \<open>The three fatal exits print their lines and call \<^verbatim>\<open>sys.exit(1)\<close>; nothing is written.\<close>

definition fatal :: "line list \<Rightarrow> result" where
  "fatal msgs = \<lparr>exit_status = 1, stdout = msgs, written = None\<rparr>"

definition main :: "directory \<Rightarrow> result" where
  "main dir =
     (case find_input_file dir INPUT_CANDIDATES of
        None \<Rightarrow>
          fatal (Text ''ERROR: Could not find input CSV. Expected one of:''
                 # map (\<lambda>n. Text ('' - '' @ n)) INPUT_CANDIDATES)
      | Some in_file \<Rightarrow>
          let reader = dict_reader dir in_file
          in (case fieldnames reader of
                None \<Rightarrow> fatal [Text ''ERROR: CSV appears to have no headers.'']
              | Some hs \<Rightarrow>
                  if hs = [] then fatal [Text ''ERROR: CSV appears to have no headers.'']
                  else
                    let lat_key = pick_header hs HEADER_ALIASES_latitude;
                        lon_key = pick_header hs HEADER_ALIASES_longitude;
                        not_found =
                          fatal [Text ''ERROR: Could not find Latitude/Longitude columns.'',
                                 Found_headers hs]
                    in if \<not> truthy lat_key \<or> \<not> truthy lon_key then not_found
                       else
                         (case lat_key of
                            None \<Rightarrow> not_found
                          | Some la \<Rightarrow>
                              (case lon_key of
                                 None \<Rightarrow> not_found
                               | Some lo \<Rightarrow>
                                   let st = rows_loop la lo (rows reader);
                                       geojson =
                                         \<lparr>ctype = ''FeatureCollection'', features = feats st\<rparr>
                                   in \<lparr>exit_status = 0,
                                       stdout = printed st @
                                         [Text (''OK: Wrote '' @ OUTPUT_FILE),
                                          Counts (length (feats st)) (skipped st)],
                                       written = Some (OUTPUT_FILE, geojson)\<rparr>))))"

subsection \<open>Notions used to state the properties\<close>

text \<open>A row parses when both of its coordinate cells coerce to floats.\<close>

definition parses :: "string \<Rightarrow> string \<Rightarrow> row \<Rightarrow> bool" where
  "parses lat_key lon_key row =
     (to_float (get row lat_key) \<noteq> None \<and> to_float (get row lon_key) \<noteq> None)"

text \<open>The feature of a numbered row, if the row parses.\<close>

definition feature_of :: "string \<Rightarrow> string \<Rightarrow> nat \<times> row \<Rightarrow> feature option" where
  "feature_of lat_key lon_key ir =
     (case ir of
        (i, row) \<Rightarrow>
          (case to_float (get row lat_key) of
             None \<Rightarrow> None
           | Some lat \<Rightarrow>
               (case to_float (get row lon_key) of
                  None \<Rightarrow> None
                | Some lon \<Rightarrow> Some (make_feature lat_key lon_key i row lat lon))))"

text \<open>The line printed for a numbered row that is skipped.\<close>

definition skip_line :: "string \<Rightarrow> string \<Rightarrow> nat \<times> row \<Rightarrow> line" where
  "skip_line lat_key lon_key ir =
     (case ir of
        (i, row) \<Rightarrow>
          Skipped i (get row lat_key) (get row lon_key) (get row ''Event #'') (get row ''City''))"

subsection \<open>An example input\<close>

text \<open>
  A table with the columns \<^verbatim>\<open>Event #\<close>, \<^verbatim>\<open>City\<close>, \<^verbatim>\<open>Latitude\<close>, \<^verbatim>\<open>Longitude\<close>,
  \<^verbatim>\<open>Total Value of Care\<close>, \<^verbatim>\<open>Total Patients\<close> and two rows, the second without a
  latitude, in a directory that holds it under the first candidate name.
\<close>

definition example_row_1 :: row where
  "example_row_1 =
     [(''Event #'', Some ''100''), (''City'', Some ''Austin''), (''Latitude'', Some ''30.27''),
      (''Longitude'', Some ''-97.74''), (''Total Value of Care'', Some ''$1,200.50''),
      (''Total Patients'', Some ''42'')]"

definition example_row_2 :: row where
  "example_row_2 =
     [(''Event #'', Some ''101''), (''City'', Some ''Dallas''), (''Latitude'', Some []),
      (''Longitude'', Some ''-96.8''), (''Total Value of Care'', Some ''300''),
      (''Total Patients'', Some ''10'')]"

definition example_table :: table where
  "example_table =
     \<lparr>fieldnames =
        Some [''Event #'', ''City'', ''Latitude'', ''Longitude'', ''Total Value of Care'',
              ''Total Patients''],
      rows = [example_row_1, example_row_2]\<rparr>"

definition example_dir :: directory where
  "example_dir =
     \<lparr>path_exists = (\<lambda>name. name = ''master clinic mapbox file.csv''),
      dict_reader = (\<lambda>name. example_table)\<rparr>"

subsection \<open>Header resolution\<close>

lemma pick_header_None: "pick_header fs as = None \<longleftrightarrow> set as \<inter> set fs = {}"
  by (induction as) auto

lemma pick_header_Some:
  "pick_header fs as = Some a \<longleftrightarrow>
     (\<exists>i < length as. as ! i = a \<and> a \<in> set fs \<and> (\<forall>j < i. as ! j \<notin> set fs))"
proof (induction as)
  case Nil
  then show ?case by simp
next
  case (Cons b bs)
  show ?case
  proof (cases "b \<in> set fs")
    case True
    have "(\<exists>i < length (b # bs). (b # bs) ! i = a \<and> a \<in> set fs \<and> (\<forall>j < i. (b # bs) ! j \<notin> set fs))
            \<longleftrightarrow> a = b"
    proof
      assume "\<exists>i < length (b # bs). (b # bs) ! i = a \<and> a \<in> set fs \<and> (\<forall>j < i. (b # bs) ! j \<notin> set fs)"
      then obtain i where i: "(b # bs) ! i = a" "\<forall>j < i. (b # bs) ! j \<notin> set fs"
        by blast
      from i(2) True have "i = 0"
        by (cases i) auto
      with i(1) show "a = b" by simp
    next
      assume "a = b"
      with True show "\<exists>i < length (b # bs). (b # bs) ! i = a \<and> a \<in> set fs \<and> (\<forall>j < i. (b # bs) ! j \<notin> set fs)"
        by (intro exI [of _ 0]) simp
    qed
    with True show ?thesis by auto
  next
    case False
    have "(\<exists>i < length (b # bs). (b # bs) ! i = a \<and> a \<in> set fs \<and> (\<forall>j < i. (b # bs) ! j \<notin> set fs))
            \<longleftrightarrow> (\<exists>i < length bs. bs ! i = a \<and> a \<in> set fs \<and> (\<forall>j < i. bs ! j \<notin> set fs))"
      (is "?L \<longleftrightarrow> ?R")
    proof
      assume ?L
      then obtain i where i: "i < length (b # bs)" "(b # bs) ! i = a" "a \<in> set fs"
        "\<forall>j < i. (b # bs) ! j \<notin> set fs"
        by blast
      from i(2,3) False obtain i' where i': "i = Suc i'"
        by (cases i) auto
      have "\<forall>j < i'. bs ! j \<notin> set fs"
      proof (intro allI impI)
        fix j assume "j < i'"
        then have "Suc j < i" using i' by simp
        with i(4) have "(b # bs) ! Suc j \<notin> set fs" by blast
        then show "bs ! j \<notin> set fs" by simp
      qed
      with i i' show ?R by auto
    next
      assume ?R
      then obtain i where i: "i < length bs" "bs ! i = a" "a \<in> set fs" "\<forall>j < i. bs ! j \<notin> set fs"
        by blast
      have "\<forall>j < Suc i. (b # bs) ! j \<notin> set fs"
      proof (intro allI impI)
        fix j assume "j < Suc i"
        then show "(b # bs) ! j \<notin> set fs"
          using False i(4) by (cases j) auto
      qed
      with i show ?L
        by (intro exI [of _ "Suc i"]) simp
    qed
    with False Cons.IH show ?thesis by simp
  qed
qed

text \<open>
  Claim C3, as amended. Header resolution returns, for latitude and for longitude, the
  first alias in declared list order that is present among the column names: an alias is
  returned exactly when it is a column name and no alias declared before it is one, and
  nothing is returned exactly when no alias is a column name. Matching is equality of
  strings, so a latitude column is recognised only under one of the five declared
  spellings, capitalised as declared.
\<close>

theorem C3_pick_header_first_alias:
  "(pick_header fs as = Some a \<longleftrightarrow>
      (\<exists>i < length as. as ! i = a \<and> a \<in> set fs \<and> (\<forall>j < i. as ! j \<notin> set fs)))
   \<and> (pick_header fs as = None \<longleftrightarrow> set as \<inter> set fs = {})
   \<and> (pick_header fs HEADER_ALIASES_latitude \<noteq> None \<longleftrightarrow>
        (\<exists>h \<in> set fs. h = ''Latitude'' \<or> h = ''Lat'' \<or> h = ''LAT'' \<or> h = ''lat'' \<or> h = ''latitude''))
   \<and> (pick_header fs HEADER_ALIASES_longitude \<noteq> None \<longleftrightarrow>
        (\<exists>h \<in> set fs. h \<in> set HEADER_ALIASES_longitude))"
proof -
  have lat: "pick_header fs HEADER_ALIASES_latitude \<noteq> None \<longleftrightarrow>
        (\<exists>h \<in> set fs. h = ''Latitude'' \<or> h = ''Lat'' \<or> h = ''LAT'' \<or> h = ''lat'' \<or> h = ''latitude'')"
    unfolding pick_header_None HEADER_ALIASES_latitude_def by auto
  have lon: "pick_header fs HEADER_ALIASES_longitude \<noteq> None \<longleftrightarrow>
        (\<exists>h \<in> set fs. h \<in> set HEADER_ALIASES_longitude)"
    unfolding pick_header_None by auto
  from lat lon show ?thesis
    using pick_header_Some [of fs as a] pick_header_None [of fs as] by blast
qed

theorem C3_pick_header_first_alias_witness:
  "pick_header [''City'', ''lat'', ''Lat'', ''lng''] HEADER_ALIASES_latitude = Some ''Lat''
   \<and> (\<exists>i < length HEADER_ALIASES_latitude. HEADER_ALIASES_latitude ! i = ''Lat''
        \<and> ''Lat'' \<in> set [''City'', ''lat'', ''Lat'', ''lng'']
        \<and> (\<forall>j < i. HEADER_ALIASES_latitude ! j \<notin> set [''City'', ''lat'', ''Lat'', ''lng'']))
   \<and> (\<exists>h \<in> set [''City'', ''lat'', ''Lat'', ''lng''].
         h = ''Latitude'' \<or> h = ''Lat'' \<or> h = ''LAT'' \<or> h = ''lat'' \<or> h = ''latitude'')"
proof -
  have p: "pick_header [''City'', ''lat'', ''Lat'', ''lng''] HEADER_ALIASES_latitude = Some ''Lat''"
    by (simp add: HEADER_ALIASES_latitude_def)
  then have n: "pick_header [''City'', ''lat'', ''Lat'', ''lng''] HEADER_ALIASES_latitude \<noteq> None"
    by simp
  from p n show ?thesis
    using C3_pick_header_first_alias
      [of "[''City'', ''lat'', ''Lat'', ''lng'']" HEADER_ALIASES_latitude "''Lat''"]
    by blast
qed

text \<open>
  The claim as first stated fails: a header that differs from the aliases only in
  capitalisation does not resolve.
\<close>

theorem C3_capitalisation_counterexample:
  "pick_header [''LATITUDE'', ''Longitude''] HEADER_ALIASES_latitude = None
   \<and> pick_header [''Latitude'', ''Longitude''] HEADER_ALIASES_latitude = Some ''Latitude''"
  by (simp add: HEADER_ALIASES_latitude_def)

subsection \<open>Trimming and the two coercers\<close>

lemma replace_filter: "replace c [] s = filter (\<lambda>x. x \<noteq> c) s"
  unfolding replace_def by (induction s) auto

lemma strip_ends:
  assumes "strip s \<noteq> []"
  shows "\<not> isspace (hd (strip s))" and "\<not> isspace (last (strip s))"
proof -
  let ?u = "dropWhile isspace s"
  let ?w = "dropWhile isspace (rev ?u)"
  from assms have w: "?w \<noteq> []" by (simp add: strip_def)
  have u: "?u \<noteq> []"
  proof
    assume "?u = []"
    then have "rev ?u = []" by (simp only: rev_is_Nil_conv)
    then have "?w = []" by (simp only: dropWhile.simps)
    with w show False by contradiction
  qed
  from hd_dropWhile [OF w] show "\<not> isspace (last (strip s))"
    by (simp add: strip_def last_rev)
  obtain ys where ys: "rev ?u = ys @ ?w"
    by (metis takeWhile_dropWhile_id)
  have "last (rev ?u) = last (ys @ ?w)"
    by (rule arg_cong [where f = last, OF ys])
  also have "\<dots> = last ?w"
    by (rule last_appendR [OF w])
  finally have "last ?w = last (rev ?u)" by (rule sym)
  also have "\<dots> = hd ?u" by (simp add: last_rev)
  finally have "hd (strip s) = hd ?u" by (simp add: strip_def hd_rev)
  with hd_dropWhile [OF u] show "\<not> isspace (hd (strip s))" by simp
qed

lemma strip_strip: "strip (strip s) = strip s"
proof (cases "strip s = []")
  case True
  then have "strip (strip s) = strip []" by simp
  also have "\<dots> = []" by (simp add: strip_def)
  finally show ?thesis using True by simp
next
  case False
  from strip_ends [OF False] False have a: "dropWhile isspace (strip s) = strip s"
    by (simp add: dropWhile_eq_self_iff)
  from strip_ends [OF False] False have "dropWhile isspace (rev (strip s)) = rev (strip s)"
    by (simp add: dropWhile_eq_self_iff hd_rev)
  with a show ?thesis by (simp add: strip_def [of "strip s"])
qed

lemma float_of_str_Nil: "float_of_str [] = None"
  by (simp add: float_of_str_def sign_of_def floatnumber_def digitpart_def)

lemma to_int_via_to_float:
  "to_int val = (case to_float val of None \<Rightarrow> None | Some f \<Rightarrow> int_of_float f)"
  by (simp add: to_int_def to_float_def Let_def split: option.splits)

lemma to_float_filter:
  "to_float (Some s) =
     float_of_str (filter (\<lambda>c. c \<noteq> CHR '','' \<and> c \<noteq> CHR ''$'') (strip s))"
  by (simp add: to_float_def Let_def replace_filter float_of_str_Nil conj_commute)

lemma to_float_strip: "to_float (Some (strip v)) = to_float (Some v)"
  by (simp add: to_float_def strip_strip)

lemma to_int_strip: "to_int (Some (strip v)) = to_int (Some v)"
  by (simp add: to_int_def strip_strip)

lemma care_not_int_col: "''Total Value of Care'' \<notin> set numeric_int_cols"
  by (simp add: numeric_int_cols_def)

lemma strip_1234: "strip ''1,234'' = ''1,234''"
  by code_simp

lemma to_int_1234: "to_int (Some ''1,234'') = Some 1234"
  by code_simp

text \<open>
  Claim C5. A cell that is \<^verbatim>\<open>None\<close> or empty after trimming yields \<^verbatim>\<open>None\<close>. Otherwise the
  column \<^verbatim>\<open>Total Value of Care\<close> goes through float coercion, the columns of
  \<open>numeric_int_cols\<close> through integer coercion, and each keeps the trimmed text when its
  coercer yields nothing; every other column yields the trimmed text. The result is never
  the empty string.
\<close>

theorem C5_dispatch_rule:
  "to_number_if_possible key None = PNone
   \<and> (strip v = [] \<longrightarrow> to_number_if_possible key (Some v) = PNone)
   \<and> (strip v \<noteq> [] \<and> key = ''Total Value of Care'' \<longrightarrow>
        to_number_if_possible key (Some v)
          = (case to_float (Some v) of Some f \<Rightarrow> PFloat f | None \<Rightarrow> PStr (strip v)))
   \<and> (strip v \<noteq> [] \<and> key \<in> set numeric_int_cols \<longrightarrow>
        to_number_if_possible key (Some v)
          = (case to_int (Some v) of Some n \<Rightarrow> PInt n | None \<Rightarrow> PStr (strip v)))
   \<and> (strip v \<noteq> [] \<and> key \<noteq> ''Total Value of Care'' \<and> key \<notin> set numeric_int_cols \<longrightarrow>
        to_number_if_possible key (Some v) = PStr (strip v))
   \<and> to_number_if_possible key val \<noteq> PStr []"
proof -
  have a: "to_number_if_possible key None = PNone"
    by (simp add: to_number_if_possible_def)
  have b: "strip v = [] \<longrightarrow> to_number_if_possible key (Some v) = PNone"
    by (simp add: to_number_if_possible_def)
  have c: "strip v \<noteq> [] \<and> key = ''Total Value of Care'' \<longrightarrow>
        to_number_if_possible key (Some v)
          = (case to_float (Some v) of Some f \<Rightarrow> PFloat f | None \<Rightarrow> PStr (strip v))"
    by (simp add: to_number_if_possible_def to_float_strip)
  have d: "strip v \<noteq> [] \<and> key \<in> set numeric_int_cols \<longrightarrow>
        to_number_if_possible key (Some v)
          = (case to_int (Some v) of Some n \<Rightarrow> PInt n | None \<Rightarrow> PStr (strip v))"
  proof
    assume h: "strip v \<noteq> [] \<and> key \<in> set numeric_int_cols"
    with care_not_int_col have "key \<noteq> ''Total Value of Care''" by blast
    with h show "to_number_if_possible key (Some v)
          = (case to_int (Some v) of Some n \<Rightarrow> PInt n | None \<Rightarrow> PStr (strip v))"
      by (simp add: to_number_if_possible_def to_int_strip)
  qed
  have e: "strip v \<noteq> [] \<and> key \<noteq> ''Total Value of Care'' \<and> key \<notin> set numeric_int_cols \<longrightarrow>
        to_number_if_possible key (Some v) = PStr (strip v)"
    by (simp add: to_number_if_possible_def)
  have f: "to_number_if_possible key val \<noteq> PStr []"
    by (cases val) (auto simp: to_number_if_possible_def Let_def split: option.splits)
  from a b c d e f show ?thesis by blast
qed

theorem C5_dispatch_rule_witness:
  "to_number_if_possible ''City'' (Some ''   '') = PNone
   \<and> to_number_if_possible ''Total Value of Care'' (Some '' $1,200.50 '') = PFloat (Finite False (2401 / 2))
   \<and> to_number_if_possible ''Total Value of Care'' (Some '' n/a '') = PStr ''n/a''
   \<and> to_number_if_possible ''Total Patients'' (Some ''42'') = PInt 42
   \<and> to_number_if_possible ''Total Patients'' (Some ''12O'') = PStr ''12O''
   \<and> to_number_if_possible ''City'' (Some '' Austin '') = PStr ''Austin''"
proof -
  have s1: "strip ''   '' = []" by code_simp
  have s2: "strip '' $1,200.50 '' \<noteq> []" by code_simp
  have s3: "strip '' n/a '' = ''n/a''" by code_simp
  have s4: "strip ''42'' \<noteq> []" by code_simp
  have s5: "strip ''12O'' = ''12O''" by code_simp
  have s6: "strip '' Austin '' = ''Austin''" by code_simp
  have f2: "to_float (Some '' $1,200.50 '') = Some (Finite False (2401 / 2))" by code_simp
  have f3: "to_float (Some '' n/a '') = None" by code_simp
  have i4: "to_int (Some ''42'') = Some 42" by code_simp
  have i5: "to_int (Some ''12O'') = None" by code_simp
  have k: "''Total Patients'' \<in> set numeric_int_cols" "''City'' \<notin> set numeric_int_cols"
    by (simp_all add: numeric_int_cols_def)
  have t1: "to_number_if_possible ''City'' (Some ''   '') = PNone"
    using C5_dispatch_rule [of "''City''" "''   ''"] s1 by simp
  have t2: "to_number_if_possible ''Total Value of Care'' (Some '' $1,200.50 '') = PFloat (Finite False (2401 / 2))"
    using C5_dispatch_rule [of "''Total Value of Care''" "'' $1,200.50 ''"] s2 f2 by simp
  have t3: "to_number_if_possible ''Total Value of Care'' (Some '' n/a '') = PStr ''n/a''"
    using C5_dispatch_rule [of "''Total Value of Care''" "'' n/a ''"] s3 f3 by simp
  have t4: "to_number_if_possible ''Total Patients'' (Some ''42'') = PInt 42"
    using C5_dispatch_rule [of "''Total Patients''" "''42''"] s4 i4 k by simp
  have t5: "to_number_if_possible ''Total Patients'' (Some ''12O'') = PStr ''12O''"
    using C5_dispatch_rule [of "''Total Patients''" "''12O''"] s5 i5 k by simp
  have t6: "to_number_if_possible ''City'' (Some '' Austin '') = PStr ''Austin''"
    using C5_dispatch_rule [of "''City''" "'' Austin ''"] s6 k by simp
  from t1 t2 t3 t4 t5 t6 show ?thesis by blast
qed

subsection \<open>Deleting commas and dollar signs\<close>

text \<open>Trimming on the left and trimming on the right, for any class of characters.\<close>

lemma rtrim_Cons:
  "rev (dropWhile Q (rev xs @ [x])) =
     (if \<forall>y \<in> set xs. Q y then (if Q x then [] else [x])
      else x # rev (dropWhile Q (rev xs)))"
  by (auto simp: dropWhile_append)

lemma ltrim_rtrim:
  "dropWhile Q (rev (dropWhile Q (rev t))) = rev (dropWhile Q (rev (dropWhile Q t)))"
proof (induction t)
  case Nil
  then show ?case by simp
next
  case (Cons x xs)
  show ?case
  proof (cases "Q x")
    case True
    show ?thesis
    proof (cases "\<forall>y \<in> set xs. Q y")
      case all: True
      with True show ?thesis by (auto simp: rtrim_Cons dest: set_dropWhileD)
    next
      case False
      with True Cons.IH show ?thesis by (auto simp: rtrim_Cons)
    qed
  next
    case False
    then show ?thesis by (auto simp: rtrim_Cons)
  qed
qed

lemma ltrim_filter: "dropWhile Q (filter p (dropWhile Q s)) = dropWhile Q (filter p s)"
  by (induction s) auto

lemma rtrim_filter:
  "rev (dropWhile Q (rev (filter p (rev (dropWhile Q (rev s)))))) =
     rev (dropWhile Q (rev (filter p s)))"
  using ltrim_filter [of Q p "rev s"] by (simp add: rev_filter)

lemma trim_filter:
  "rev (dropWhile Q (rev (dropWhile Q (filter p (rev (dropWhile Q (rev (dropWhile Q s)))))))) =
     rev (dropWhile Q (rev (dropWhile Q (filter p s))))"
proof -
  let ?L = "\<lambda>t. dropWhile Q t"
  let ?R = "\<lambda>t. rev (dropWhile Q (rev t))"
  have "?R (?L (filter p (?R (?L s)))) = ?R (?L (filter p (?L (?R s))))"
    by (simp only: ltrim_rtrim)
  also have "\<dots> = ?R (?L (filter p (?R s)))"
    by (simp only: ltrim_filter)
  also have "\<dots> = ?L (?R (filter p (?R s)))"
    by (simp only: ltrim_rtrim)
  also have "\<dots> = ?L (?R (filter p s))"
    by (simp only: rtrim_filter)
  also have "\<dots> = ?R (?L (filter p s))"
    by (simp only: ltrim_rtrim)
  finally show ?thesis .
qed

lemma float_of_str_trim:
  "float_of_str (rev (dropWhile float_isspace (rev (dropWhile float_isspace s)))) = float_of_str s"
proof -
  have "dropWhile float_isspace (rev (dropWhile float_isspace
          (rev (dropWhile float_isspace (rev (dropWhile float_isspace s))))))
        = dropWhile float_isspace (rev (dropWhile float_isspace s))"
    by (simp add: ltrim_rtrim [symmetric])
  then show ?thesis
    by (simp add: float_of_str_def)
qed

lemma float_of_str_cong:
  assumes "rev (dropWhile float_isspace (rev (dropWhile float_isspace a)))
           = rev (dropWhile float_isspace (rev (dropWhile float_isspace b)))"
  shows "float_of_str a = float_of_str b"
  using assms float_of_str_trim [of a] float_of_str_trim [of b] by simp

lemma isspace_float_isspace:
  "c \<notin> set [CHR 0x1C, CHR 0x1D, CHR 0x1E, CHR 0x1F] \<Longrightarrow> isspace c = float_isspace c"
  by (auto simp: isspace_def float_isspace_def)

lemma strip_float_trim:
  assumes "\<forall>c \<in> set s. c \<notin> set [CHR 0x1C, CHR 0x1D, CHR 0x1E, CHR 0x1F]"
  shows "strip s = rev (dropWhile float_isspace (rev (dropWhile float_isspace s)))"
proof -
  have a: "dropWhile isspace s = dropWhile float_isspace s"
    by (rule dropWhile_cong) (use assms isspace_float_isspace in auto)
  have "dropWhile isspace (rev (dropWhile float_isspace s))
        = dropWhile float_isspace (rev (dropWhile float_isspace s))"
  proof (rule dropWhile_cong)
    fix x assume "x \<in> set (rev (dropWhile float_isspace s))"
    then have "x \<in> set s" by (auto dest: set_dropWhileD)
    with assms show "isspace x = float_isspace x"
      by (intro isspace_float_isspace) blast
  qed simp
  with a show ?thesis by (simp add: strip_def)
qed

lemma float_of_str_filter_strip:
  assumes "\<forall>c \<in> set s. c \<notin> set [CHR 0x1C, CHR 0x1D, CHR 0x1E, CHR 0x1F]"
  shows "float_of_str (filter p (strip s)) = float_of_str (filter p s)"
  by (rule float_of_str_cong) (simp only: strip_float_trim [OF assms] trim_filter)

text \<open>
  Claim C10, as amended. Both coercers delete every comma and every dollar sign, wherever
  it stands: for every input string, float coercion is \<^verbatim>\<open>float\<close> applied to the trimmed
  string with all \<^verbatim>\<open>,\<close> and \<^verbatim>\<open>$\<close> deleted, and integer coercion is \<^verbatim>\<open>int\<close> of that. For
  a string that holds none of the separators 0x1C to 0x1F this is \<^verbatim>\<open>float\<close> applied to the
  string itself with all \<^verbatim>\<open>,\<close> and \<^verbatim>\<open>$\<close> deleted. So \<^verbatim>\<open>"12,34"\<close> coerces to 1234.
\<close>

theorem C10_every_comma_and_dollar_deleted:
  "to_float (Some s)
     = float_of_str (filter (\<lambda>c. c \<noteq> CHR '','' \<and> c \<noteq> CHR ''$'') (strip s))
   \<and> to_int (Some s)
       = (case float_of_str (filter (\<lambda>c. c \<noteq> CHR '','' \<and> c \<noteq> CHR ''$'') (strip s)) of
            None \<Rightarrow> None
          | Some f \<Rightarrow> int_of_float f)
   \<and> ((\<forall>c \<in> set s. c \<notin> set [CHR 0x1C, CHR 0x1D, CHR 0x1E, CHR 0x1F]) \<longrightarrow>
        to_float (Some s) = float_of_str (filter (\<lambda>c. c \<noteq> CHR '','' \<and> c \<noteq> CHR ''$'') s)
        \<and> to_int (Some s)
            = (case float_of_str (filter (\<lambda>c. c \<noteq> CHR '','' \<and> c \<noteq> CHR ''$'') s) of
                 None \<Rightarrow> None
               | Some f \<Rightarrow> int_of_float f))
   \<and> to_float (Some ''12,34'') = Some (Finite False 1234)
   \<and> to_int (Some ''12,34'') = Some 1234"
proof -
  let ?p = "\<lambda>c. c \<noteq> CHR '','' \<and> c \<noteq> CHR ''$''"
  have a: "to_float (Some s) = float_of_str (filter ?p (strip s))"
    by (rule to_float_filter)
  have b: "to_int (Some s)
       = (case float_of_str (filter ?p (strip s)) of None \<Rightarrow> None | Some f \<Rightarrow> int_of_float f)"
    by (simp only: to_int_via_to_float a)
  have c: "(\<forall>c \<in> set s. c \<notin> set [CHR 0x1C, CHR 0x1D, CHR 0x1E, CHR 0x1F]) \<longrightarrow>
        to_float (Some s) = float_of_str (filter ?p s)
        \<and> to_int (Some s)
            = (case float_of_str (filter ?p s) of None \<Rightarrow> None | Some f \<Rightarrow> int_of_float f)"
  proof
    assume h: "\<forall>c \<in> set s. c \<notin> set [CHR 0x1C, CHR 0x1D, CHR 0x1E, CHR 0x1F]"
    have "float_of_str (filter ?p (strip s)) = float_of_str (filter ?p s)"
      by (rule float_of_str_filter_strip [OF h])
    with a b show "to_float (Some s) = float_of_str (filter ?p s)
        \<and> to_int (Some s)
            = (case float_of_str (filter ?p s) of None \<Rightarrow> None | Some f \<Rightarrow> int_of_float f)"
      by simp
  qed
  have d: "to_float (Some ''12,34'') = Some (Finite False 1234)"
    by code_simp
  have e: "to_int (Some ''12,34'') = Some 1234"
    by code_simp
  from a b c d e show ?thesis by blast
qed

theorem C10_every_comma_and_dollar_deleted_witness:
  "to_float (Some '' $1,2,34.5$ '') = Some (Finite False (2469 / 2))
   \<and> float_of_str (filter (\<lambda>c. c \<noteq> CHR '','' \<and> c \<noteq> CHR ''$'') '' $1,2,34.5$ '')
       = Some (Finite False (2469 / 2))"
proof -
  have h: "\<forall>c \<in> set '' $1,2,34.5$ ''. c \<notin> set [CHR 0x1C, CHR 0x1D, CHR 0x1E, CHR 0x1F]"
    by simp
  have v: "to_float (Some '' $1,2,34.5$ '') = Some (Finite False (2469 / 2))"
    by code_simp
  have t: "to_float (Some '' $1,2,34.5$ '')
       = float_of_str (filter (\<lambda>c. c \<noteq> CHR '','' \<and> c \<noteq> CHR ''$'') '' $1,2,34.5$ '')"
    using C10_every_comma_and_dollar_deleted [of "'' $1,2,34.5$ ''"] h by blast
  have "float_of_str (filter (\<lambda>c. c \<noteq> CHR '','' \<and> c \<noteq> CHR ''$'') '' $1,2,34.5$ '')
       = Some (Finite False (2469 / 2))"
    by (rule trans [OF t [symmetric] v])
  with v show ?thesis by blast
qed

text \<open>
  The claim as first stated fails where trimming removes a separator that \<^verbatim>\<open>float\<close> does
  not skip: the cell \<^verbatim>\<open>"\x1c1"\<close> coerces to 1.0, while \<^verbatim>\<open>float("\x1c1")\<close> raises.
\<close>

theorem C10_separator_counterexample:
  "to_float (Some [CHR 0x1C, CHR ''1'']) = Some (Finite False 1)
   \<and> float_of_str (filter (\<lambda>c. c \<noteq> CHR '','' \<and> c \<noteq> CHR ''$'') [CHR 0x1C, CHR ''1'']) = None"
  by code_simp

subsection \<open>The loop over the rows\<close>

lemma map_of_setitem: "map_of (setitem d k v) = (map_of d)(k \<mapsto> v)"
  by (induction d k v rule: setitem.induct) auto

lemma feature_of_eq_None: "feature_of la lo (i, row) = None \<longleftrightarrow> \<not> parses la lo row"
  by (auto simp: feature_of_def parses_def split: option.splits)

lemma feature_of_eq_Some:
  "feature_of la lo (i, row) = Some f \<longleftrightarrow>
     (\<exists>lat lon. to_float (get row la) = Some lat \<and> to_float (get row lo) = Some lon
        \<and> f = make_feature la lo i row lat lon)"
  by (auto simp: feature_of_def split: option.splits)

lemma loop_body_skip:
  "\<not> parses la lo row \<Longrightarrow> loop_body la lo st (i, row) = skip_row la lo st i row"
  by (auto simp: loop_body_def parses_def split: option.splits)

lemma loop_body_feature:
  "feature_of la lo (i, row) = Some f \<Longrightarrow>
     loop_body la lo st (i, row) = st\<lparr>feats := feats st @ [f]\<rparr>"
  by (auto simp: loop_body_def feature_of_def split: option.splits)

lemma foldl_loop_body:
  "foldl (loop_body la lo) st irs =
     st\<lparr>feats := feats st @ List.map_filter (feature_of la lo) irs,
        skipped := skipped st + length (filter (\<lambda>ir. \<not> parses la lo (snd ir)) irs),
        printed := printed st
          @ map (skip_line la lo) (filter (\<lambda>ir. \<not> parses la lo (snd ir)) irs)\<rparr>"
proof (induction irs arbitrary: st)
  case Nil
  then show ?case by simp
next
  case (Cons ir irs)
  obtain i row where ir: "ir = (i, row)" by (cases ir)
  show ?case
  proof (cases "feature_of la lo (i, row)")
    case None
    then have np: "\<not> parses la lo row" by (simp add: feature_of_eq_None)
    with None show ?thesis
      by (simp add: ir Cons.IH loop_body_skip skip_row_def skip_line_def)
  next
    case (Some f)
    then have "parses la lo row"
      using feature_of_eq_None [of la lo i row] by simp
    with Some show ?thesis
      by (simp add: ir Cons.IH loop_body_feature)
  qed
qed

lemma rows_loop_eq:
  "rows_loop la lo rs =
     \<lparr>feats = List.map_filter (feature_of la lo) (enumerate 1 rs),
      skipped = length (filter (\<lambda>ir. \<not> parses la lo (snd ir)) (enumerate 1 rs)),
      printed = map (skip_line la lo) (filter (\<lambda>ir. \<not> parses la lo (snd ir)) (enumerate 1 rs))\<rparr>"
  by (simp add: rows_loop_def foldl_loop_body)





lemma row_of_make_feature:
  "map_of (properties (make_feature la lo i row lat lon)) ''_row'' = Some (PInt (int i))"
  by (simp add: make_feature_def Let_def map_of_setitem split: option.splits)



lemma rows_of_features:
  "map (\<lambda>f. map_of (properties f) ''_row'') (List.map_filter (feature_of la lo) irs)
     = map (\<lambda>ir. Some (PInt (int (fst ir)))) (filter (\<lambda>ir. parses la lo (snd ir)) irs)"
proof (induction irs)
  case Nil
  then show ?case by simp
next
  case (Cons ir irs)
  obtain i row where ir: "ir = (i, row)" by (cases ir)
  show ?case
  proof (cases "feature_of la lo (i, row)")
    case None
    then have "\<not> parses la lo row" by (simp add: feature_of_eq_None)
    with None Cons.IH show ?thesis by (simp add: ir)
  next
    case (Some f)
    then have p: "parses la lo row"
      using feature_of_eq_None [of la lo i row] by simp
    from Some have "map_of (properties f) ''_row'' = Some (PInt (int i))"
      by (auto simp: feature_of_eq_Some row_of_make_feature)
    with Some p Cons.IH show ?thesis by (simp add: ir)
  qed
qed

lemma ordinals_increasing:
  "sorted_wrt (<) (map fst (filter P (enumerate i rs)))"
proof -
  have "sorted_wrt (<) (map fst (enumerate i rs))"
    by simp
  then have "sorted_wrt (\<lambda>x y. fst x < fst y) (enumerate i rs)"
    by (simp only: sorted_wrt_map)
  then have "sorted_wrt (\<lambda>x y. fst x < fst y) (filter P (enumerate i rs))"
    by (rule sorted_wrt_filter)
  then show ?thesis
    by (simp only: sorted_wrt_map)
qed





subsection \<open>The run as a whole\<close>

lemma pick_header_mem: "pick_header hs as = Some a \<Longrightarrow> a \<in> set as"
  by (induction as) (auto split: if_splits)

lemma truthy_latitude: "pick_header hs HEADER_ALIASES_latitude = Some a \<Longrightarrow> truthy (Some a)"
  by (drule pick_header_mem) (auto simp: HEADER_ALIASES_latitude_def truthy_def)

lemma truthy_longitude: "pick_header hs HEADER_ALIASES_longitude = Some a \<Longrightarrow> truthy (Some a)"
  by (drule pick_header_mem) (auto simp: HEADER_ALIASES_longitude_def truthy_def)

lemma main_success:
  assumes "find_input_file dir INPUT_CANDIDATES = Some file"
    and "fieldnames (dict_reader dir file) = Some hs"
    and "hs \<noteq> []"
    and "pick_header hs HEADER_ALIASES_latitude = Some la"
    and "pick_header hs HEADER_ALIASES_longitude = Some lo"
  shows "main dir =
     \<lparr>exit_status = 0,
      stdout = printed (rows_loop la lo (rows (dict_reader dir file))) @
        [Text (''OK: Wrote '' @ OUTPUT_FILE),
         Counts (length (feats (rows_loop la lo (rows (dict_reader dir file)))))
           (skipped (rows_loop la lo (rows (dict_reader dir file))))],
      written = Some (OUTPUT_FILE,
        \<lparr>ctype = ''FeatureCollection'',
         features = feats (rows_loop la lo (rows (dict_reader dir file)))\<rparr>)\<rparr>"
  using assms truthy_latitude [OF assms(4)] truthy_longitude [OF assms(5)]
  by (simp add: main_def Let_def)

text \<open>
  Claim C8. When the setup succeeds, the run writes one document, of type
  \<^verbatim>\<open>FeatureCollection\<close>, whose features are those of the parsing rows in the order of the
  rows: their \<^verbatim>\<open>_row\<close> values are the ordinals of the parsing rows, in increasing order.
\<close>

theorem C8_feature_collection_in_row_order:
  assumes "find_input_file dir INPUT_CANDIDATES = Some file"
    and "fieldnames (dict_reader dir file) = Some hs"
    and "hs \<noteq> []"
    and "pick_header hs HEADER_ALIASES_latitude = Some la"
    and "pick_header hs HEADER_ALIASES_longitude = Some lo"
  shows "written (main dir) = Some (OUTPUT_FILE,
        \<lparr>ctype = ''FeatureCollection'',
         features = List.map_filter (feature_of la lo) (enumerate 1 (rows (dict_reader dir file)))\<rparr>)
    \<and> map (\<lambda>f. map_of (properties f) ''_row'')
          (List.map_filter (feature_of la lo) (enumerate 1 (rows (dict_reader dir file))))
        = map (\<lambda>ir. Some (PInt (int (fst ir))))
            (filter (\<lambda>ir. parses la lo (snd ir)) (enumerate 1 (rows (dict_reader dir file))))
    \<and> sorted_wrt (<)
          (map fst (filter (\<lambda>ir. parses la lo (snd ir)) (enumerate 1 (rows (dict_reader dir file)))))"
proof -
  have "written (main dir) = Some (OUTPUT_FILE,
        \<lparr>ctype = ''FeatureCollection'',
         features = List.map_filter (feature_of la lo) (enumerate 1 (rows (dict_reader dir file)))\<rparr>)"
    by (simp add: main_success [OF assms] rows_loop_eq)
  with rows_of_features [of la lo] ordinals_increasing show ?thesis
    by blast
qed

theorem C8_feature_collection_in_row_order_witness:
  "written (main example_dir) = Some (''MapBox Dataset.geojson'',
        \<lparr>ctype = ''FeatureCollection'',
         features = [make_feature ''Latitude'' ''Longitude'' 1 example_row_1
           (Finite False (8520247545031557 / 281474976710656))
           (Finite True (6877841055924879 / 70368744177664))]\<rparr>)"
proof -
  have a: "find_input_file example_dir INPUT_CANDIDATES = Some ''master clinic mapbox file.csv''"
    by code_simp
  have b: "fieldnames (dict_reader example_dir ''master clinic mapbox file.csv'')
      = Some [''Event #'', ''City'', ''Latitude'', ''Longitude'', ''Total Value of Care'',
              ''Total Patients'']"
    by code_simp
  have c: "[''Event #'', ''City'', ''Latitude'', ''Longitude'', ''Total Value of Care'',
              ''Total Patients''] \<noteq> []"
    by simp
  have d: "pick_header [''Event #'', ''City'', ''Latitude'', ''Longitude'', ''Total Value of Care'',
              ''Total Patients''] HEADER_ALIASES_latitude = Some ''Latitude''"
    by code_simp
  have e: "pick_header [''Event #'', ''City'', ''Latitude'', ''Longitude'', ''Total Value of Care'',
              ''Total Patients''] HEADER_ALIASES_longitude = Some ''Longitude''"
    by code_simp
  have r: "rows (dict_reader example_dir ''master clinic mapbox file.csv'')
      = [example_row_1, example_row_2]"
    by code_simp
  have f: "List.map_filter (feature_of ''Latitude'' ''Longitude'') (enumerate 1 [example_row_1, example_row_2])
      = [make_feature ''Latitude'' ''Longitude'' 1 example_row_1
           (Finite False (8520247545031557 / 281474976710656))
           (Finite True (6877841055924879 / 70368744177664))]"
    by code_simp
  from C8_feature_collection_in_row_order [OF a b c d e] show ?thesis
    by (simp only: r f OUTPUT_FILE_def)
qed

text \<open>
  Claim C7. Each of the three fatal setup conditions ends the run with exit status 1 and
  nothing written: no candidate file exists, and both candidate names are printed; the
  input has no header row; or the latitude or longitude column does not resolve, and the
  header names found are printed. A document is written exactly when the exit status
  is 0.
\<close>

theorem C7_fatal_setup_conditions:
  "((\<forall>name \<in> set INPUT_CANDIDATES. \<not> path_exists dir name) \<longrightarrow>
      exit_status (main dir) = 1 \<and> written (main dir) = None
      \<and> stdout (main dir)
          = [Text ''ERROR: Could not find input CSV. Expected one of:'',
             Text '' - master clinic mapbox file.csv'',
             Text '' - master clinic mapbox file.cvs''])
   \<and> (find_input_file dir INPUT_CANDIDATES = Some file
        \<and> (fieldnames (dict_reader dir file) = None \<or> fieldnames (dict_reader dir file) = Some [])
      \<longrightarrow>
      exit_status (main dir) = 1 \<and> written (main dir) = None
      \<and> stdout (main dir) = [Text ''ERROR: CSV appears to have no headers.''])
   \<and> (find_input_file dir INPUT_CANDIDATES = Some file
        \<and> fieldnames (dict_reader dir file) = Some hs \<and> hs \<noteq> []
        \<and> (pick_header hs HEADER_ALIASES_latitude = None
             \<or> pick_header hs HEADER_ALIASES_longitude = None)
      \<longrightarrow>
      exit_status (main dir) = 1 \<and> written (main dir) = None
      \<and> stdout (main dir)
          = [Text ''ERROR: Could not find Latitude/Longitude columns.'', Found_headers hs])
   \<and> (written (main dir) \<noteq> None \<longleftrightarrow> exit_status (main dir) = 0)"
proof -
  have a: "(\<forall>name \<in> set INPUT_CANDIDATES. \<not> path_exists dir name) \<longrightarrow>
      exit_status (main dir) = 1 \<and> written (main dir) = None
      \<and> stdout (main dir)
          = [Text ''ERROR: Could not find input CSV. Expected one of:'',
             Text '' - master clinic mapbox file.csv'',
             Text '' - master clinic mapbox file.cvs'']"
    by (simp add: main_def fatal_def INPUT_CANDIDATES_def)
  have b: "find_input_file dir INPUT_CANDIDATES = Some file
        \<and> (fieldnames (dict_reader dir file) = None \<or> fieldnames (dict_reader dir file) = Some [])
      \<longrightarrow>
      exit_status (main dir) = 1 \<and> written (main dir) = None
      \<and> stdout (main dir) = [Text ''ERROR: CSV appears to have no headers.'']"
    by (auto simp: main_def fatal_def Let_def)
  have c: "find_input_file dir INPUT_CANDIDATES = Some file
        \<and> fieldnames (dict_reader dir file) = Some hs \<and> hs \<noteq> []
        \<and> (pick_header hs HEADER_ALIASES_latitude = None
             \<or> pick_header hs HEADER_ALIASES_longitude = None)
      \<longrightarrow>
      exit_status (main dir) = 1 \<and> written (main dir) = None
      \<and> stdout (main dir)
          = [Text ''ERROR: Could not find Latitude/Longitude columns.'', Found_headers hs]"
    by (auto simp: main_def fatal_def Let_def truthy_def)
  have d: "written (main dir) \<noteq> None \<longleftrightarrow> exit_status (main dir) = 0"
    by (simp add: main_def fatal_def Let_def split: option.splits)
  from a b c d show ?thesis by blast
qed

theorem C7_fatal_setup_conditions_witness:
  "main \<lparr>path_exists = (\<lambda>name. False),
         dict_reader = (\<lambda>name. \<lparr>fieldnames = None, rows = []\<rparr>)\<rparr>
     = \<lparr>exit_status = 1,
        stdout = [Text ''ERROR: Could not find input CSV. Expected one of:'',
                  Text '' - master clinic mapbox file.csv'',
                  Text '' - master clinic mapbox file.cvs''],
        written = None\<rparr>
   \<and> main \<lparr>path_exists = (\<lambda>name. True),
           dict_reader = (\<lambda>name. \<lparr>fieldnames = None, rows = []\<rparr>)\<rparr>
       = \<lparr>exit_status = 1,
          stdout = [Text ''ERROR: CSV appears to have no headers.''],
          written = None\<rparr>
   \<and> main \<lparr>path_exists = (\<lambda>name. True),
           dict_reader = (\<lambda>name. \<lparr>fieldnames = Some [''City'', ''Longitude''], rows = []\<rparr>)\<rparr>
       = \<lparr>exit_status = 1,
          stdout = [Text ''ERROR: Could not find Latitude/Longitude columns.'',
                    Found_headers [''City'', ''Longitude'']],
          written = None\<rparr>
   \<and> exit_status (main example_dir) = 0"
proof -
  let ?d1 = "\<lparr>path_exists = (\<lambda>name. False),
         dict_reader = (\<lambda>name. \<lparr>fieldnames = None, rows = []\<rparr>)\<rparr>"
  let ?d2 = "\<lparr>path_exists = (\<lambda>name. True),
           dict_reader = (\<lambda>name. \<lparr>fieldnames = None, rows = []\<rparr>)\<rparr>"
  let ?d3 = "\<lparr>path_exists = (\<lambda>name. True),
           dict_reader = (\<lambda>name. \<lparr>fieldnames = Some [''City'', ''Longitude''], rows = []\<rparr>)\<rparr>"
  have f2: "find_input_file ?d2 INPUT_CANDIDATES = Some ''master clinic mapbox file.csv''"
    by (simp add: INPUT_CANDIDATES_def)
  have f3: "find_input_file ?d3 INPUT_CANDIDATES = Some ''master clinic mapbox file.csv''"
    by (simp add: INPUT_CANDIDATES_def)
  have p3: "pick_header [''City'', ''Longitude''] HEADER_ALIASES_latitude = None"
    by (simp add: HEADER_ALIASES_latitude_def)
  have w: "written (main example_dir) \<noteq> None"
    by code_simp
  have r1: "exit_status (main ?d1) = 1 \<and> written (main ?d1) = None
      \<and> stdout (main ?d1)
          = [Text ''ERROR: Could not find input CSV. Expected one of:'',
             Text '' - master clinic mapbox file.csv'',
             Text '' - master clinic mapbox file.cvs'']"
    using C7_fatal_setup_conditions [of ?d1] by simp
  have r2: "exit_status (main ?d2) = 1 \<and> written (main ?d2) = None
      \<and> stdout (main ?d2) = [Text ''ERROR: CSV appears to have no headers.'']"
    using C7_fatal_setup_conditions [of ?d2 "''master clinic mapbox file.csv''"] f2 by simp
  have r3: "exit_status (main ?d3) = 1 \<and> written (main ?d3) = None
      \<and> stdout (main ?d3)
          = [Text ''ERROR: Could not find Latitude/Longitude columns.'',
             Found_headers [''City'', ''Longitude'']]"
    using C7_fatal_setup_conditions
      [of ?d3 "''master clinic mapbox file.csv''" "[''City'', ''Longitude'']"] f3 p3
    by simp
  have r4: "exit_status (main example_dir) = 0"
    using C7_fatal_setup_conditions [of example_dir] w by blast
  have e: "\<And>r :: result. r = \<lparr>exit_status = exit_status r, stdout = stdout r, written = written r\<rparr>"
    by simp
  from r1 r2 r3 r4 show ?thesis
    using e [of "main ?d1"] e [of "main ?d2"] e [of "main ?d3"] by simp
qed

subsection \<open>The identifiers of a feature\<close>










subsection \<open>Integer coercion\<close>

lemma strip_alt: "strip s = dropWhile isspace (rev (dropWhile isspace (rev s)))"
  by (simp add: strip_def ltrim_rtrim)

lemma strip_decomp:
  "\<exists>a b. v = a @ strip v @ b \<and> (\<forall>c \<in> set a. isspace c) \<and> (\<forall>c \<in> set b. isspace c)"
proof -
  let ?a = "takeWhile isspace v"
  let ?u = "dropWhile isspace v"
  let ?b = "rev (takeWhile isspace (rev ?u))"
  have "rev (takeWhile isspace (rev ?u) @ dropWhile isspace (rev ?u)) = rev (rev ?u)"
    by (simp only: takeWhile_dropWhile_id)
  then have "rev (dropWhile isspace (rev ?u)) @ ?b = ?u"
    by (simp only: rev_append rev_rev_ident)
  then have u: "?u = strip v @ ?b"
    by (simp only: strip_def)
  have "v = ?a @ ?u"
    by simp
  with u have "v = ?a @ strip v @ ?b"
    by simp
  moreover have "\<forall>c \<in> set ?a. isspace c"
    by (auto dest: set_takeWhileD)
  moreover have "\<forall>c \<in> set ?b. isspace c"
    by (auto dest: set_takeWhileD)
  ultimately show ?thesis by blast
qed

lemma strip_append_spaces:
  assumes "\<forall>c \<in> set a. isspace c" and "\<forall>c \<in> set b. isspace c"
  shows "strip (a @ v @ b) = strip v"
proof -
  from assms(1) have "dropWhile isspace (a @ v @ b) = dropWhile isspace (v @ b)"
    by simp
  then have "strip (a @ v @ b) = strip (v @ b)"
    by (simp add: strip_def)
  also from assms(2) have "dropWhile isspace (rev (v @ b)) = dropWhile isspace (rev v)"
    by (simp add: dropWhile_append)
  then have "strip (v @ b) = strip v"
    by (simp only: strip_alt)
  finally show ?thesis .
qed

text \<open>
  Claim C4, as amended. Integer coercion trims: the trimmed text is the cell without the
  whitespace at its two ends, and whitespace added at the ends of a cell does not change
  the result. It deletes every comma and every dollar sign, and no other currency symbol,
  parses what is left as a float and cuts the number towards zero, so \<^verbatim>\<open>"12.7"\<close> becomes
  12 and \<^verbatim>\<open>"-12.7"\<close> becomes -12; an empty cell, an unparsable text, an infinity and NaN
  yield nothing. In every integer-designated column \<^verbatim>\<open>"1,234"\<close> becomes the integer 1234,
  and in the column \<^verbatim>\<open>Total Value of Care\<close> the text \<^verbatim>\<open>"$1,234.50"\<close> becomes the float
  1234.5.
\<close>

theorem C4_integer_coercion:
  "(\<exists>a b. v = a @ strip v @ b \<and> (\<forall>c \<in> set a. isspace c) \<and> (\<forall>c \<in> set b. isspace c))
   \<and> (strip v \<noteq> [] \<longrightarrow> \<not> isspace (hd (strip v)) \<and> \<not> isspace (last (strip v)))
   \<and> ((\<forall>c \<in> set a'. isspace c) \<and> (\<forall>c \<in> set b'. isspace c) \<longrightarrow>
        to_int (Some (a' @ v @ b')) = to_int (Some v)
        \<and> to_float (Some (a' @ v @ b')) = to_float (Some v))
   \<and> to_int None = None
   \<and> (strip v = [] \<longrightarrow> to_int (Some v) = None)
   \<and> to_int (Some v)
       = (case float_of_str (filter (\<lambda>c. c \<noteq> CHR '','' \<and> c \<noteq> CHR ''$'') (strip v)) of
            None \<Rightarrow> None
          | Some f \<Rightarrow> int_of_float f)
   \<and> to_int val = (case to_float val of None \<Rightarrow> None | Some f \<Rightarrow> int_of_float f)
   \<and> (to_float val = Some (Finite neg q) \<longrightarrow>
        to_int val = Some (if neg then - \<lfloor>q\<rfloor> else \<lfloor>q\<rfloor>))
   \<and> to_int (Some ''12.7'') = Some 12
   \<and> to_int (Some ''-12.7'') = Some (- 12)
   \<and> (\<forall>key \<in> set numeric_int_cols. to_number_if_possible key (Some ''1,234'') = PInt 1234)
   \<and> to_number_if_possible ''Total Value of Care'' (Some ''$1,234.50'')
       = PFloat (Finite False (2469 / 2))"
proof -
  let ?p = "\<lambda>c. c \<noteq> CHR '','' \<and> c \<noteq> CHR ''$''"
  have t1: "\<exists>a b. v = a @ strip v @ b \<and> (\<forall>c \<in> set a. isspace c) \<and> (\<forall>c \<in> set b. isspace c)"
    by (rule strip_decomp)
  have t2: "strip v \<noteq> [] \<longrightarrow> \<not> isspace (hd (strip v)) \<and> \<not> isspace (last (strip v))"
    using strip_ends [of v] by blast
  have t3: "(\<forall>c \<in> set a'. isspace c) \<and> (\<forall>c \<in> set b'. isspace c) \<longrightarrow>
        to_int (Some (a' @ v @ b')) = to_int (Some v)
        \<and> to_float (Some (a' @ v @ b')) = to_float (Some v)"
  proof
    assume "(\<forall>c \<in> set a'. isspace c) \<and> (\<forall>c \<in> set b'. isspace c)"
    then have "strip (a' @ v @ b') = strip v"
      using strip_append_spaces [of a' b' v] by blast
    then show "to_int (Some (a' @ v @ b')) = to_int (Some v)
        \<and> to_float (Some (a' @ v @ b')) = to_float (Some v)"
      by (simp add: to_int_def to_float_def)
  qed
  have t4: "to_int None = None"
    by (simp add: to_int_def)
  have t5: "strip v = [] \<longrightarrow> to_int (Some v) = None"
    by (simp add: to_int_def)
  have a: "to_int val = (case to_float val of None \<Rightarrow> None | Some f \<Rightarrow> int_of_float f)"
    by (rule to_int_via_to_float)
  have t6: "to_int (Some v)
       = (case float_of_str (filter ?p (strip v)) of None \<Rightarrow> None | Some f \<Rightarrow> int_of_float f)"
    by (simp only: to_int_via_to_float to_float_filter)
  have b: "to_float val = Some (Finite neg q) \<longrightarrow>
        to_int val = Some (if neg then - \<lfloor>q\<rfloor> else \<lfloor>q\<rfloor>)"
    by (simp add: a int_of_float_def)
  have c: "to_int (Some ''12.7'') = Some 12"
    by code_simp
  have c': "to_int (Some ''-12.7'') = Some (- 12)"
    by code_simp
  have d: "\<forall>key \<in> set numeric_int_cols. to_number_if_possible key (Some ''1,234'') = PInt 1234"
  proof
    fix key assume k: "key \<in> set numeric_int_cols"
    with care_not_int_col have "key \<noteq> ''Total Value of Care''" by blast
    with k show "to_number_if_possible key (Some ''1,234'') = PInt 1234"
      by (simp add: to_number_if_possible_def strip_1234 to_int_1234)
  qed
  have e: "to_number_if_possible ''Total Value of Care'' (Some ''$1,234.50'')
       = PFloat (Finite False (2469 / 2))"
    by code_simp
  from t1 t2 t3 t4 t5 t6 a b c c' d e show ?thesis by blast
qed

theorem C4_integer_coercion_witness:
  "to_int (Some ([CHR 0x1C, CHR 0x20] @ ''12.7'' @ [CHR 0x09, CHR 0x1F])) = Some 12
   \<and> to_float (Some ([CHR 0x1C, CHR 0x20] @ ''12.7'' @ [CHR 0x09, CHR 0x1F]))
       = Some (Finite False (3574732204225331 / 281474976710656))
   \<and> strip '' 12.7 '' = ''12.7''
   \<and> \<not> isspace (hd (strip '' 12.7 '')) \<and> \<not> isspace (last (strip '' 12.7 ''))
   \<and> strip [CHR 0x09, CHR 0x20] = [] \<and> to_int (Some [CHR 0x09, CHR 0x20]) = None
   \<and> to_float (Some ''-12.7'') = Some (Finite True (3574732204225331 / 281474976710656))
   \<and> to_int (Some ''-12.7'') = Some (- 12)
   \<and> ''Year'' \<in> set numeric_int_cols
   \<and> to_number_if_possible ''Year'' (Some ''1,234'') = PInt 1234"
proof -
  have sa: "\<forall>c \<in> set [CHR 0x1C, CHR 0x20]. isspace c"
    by (simp add: isspace_def)
  have sb: "\<forall>c \<in> set [CHR 0x09, CHR 0x1F]. isspace c"
    by (simp add: isspace_def)
  have i: "to_int (Some ''12.7'') = Some 12"
    by code_simp
  have fp: "to_float (Some ''12.7'') = Some (Finite False (3574732204225331 / 281474976710656))"
    by code_simp
  have s1: "strip '' 12.7 '' = ''12.7''"
    by code_simp
  have s2: "strip [CHR 0x09, CHR 0x20] = []"
    by code_simp
  have f: "to_float (Some ''-12.7'') = Some (Finite True (3574732204225331 / 281474976710656))"
    by code_simp
  have y: "''Year'' \<in> set numeric_int_cols"
    by (simp add: numeric_int_cols_def)
  have fl: "\<lfloor>3574732204225331 / 281474976710656 :: rat\<rfloor> = 12"
    by (rule floor_unique) simp_all
  have w1: "to_int (Some ([CHR 0x1C, CHR 0x20] @ ''12.7'' @ [CHR 0x09, CHR 0x1F])) = to_int (Some ''12.7'')
      \<and> to_float (Some ([CHR 0x1C, CHR 0x20] @ ''12.7'' @ [CHR 0x09, CHR 0x1F])) = to_float (Some ''12.7'')"
    using C4_integer_coercion
      [of "''12.7''" "[CHR 0x1C, CHR 0x20]" "[CHR 0x09, CHR 0x1F]" None False 0] sa sb
    by blast
  have w2: "\<not> isspace (hd (strip '' 12.7 '')) \<and> \<not> isspace (last (strip '' 12.7 ''))"
    using C4_integer_coercion [of "'' 12.7 ''" "[]" "[]" None False 0] s1 by simp
  have w3: "to_int (Some [CHR 0x09, CHR 0x20]) = None"
    using C4_integer_coercion [of "[CHR 0x09, CHR 0x20]" "[]" "[]" None False 0] s2 by blast
  have "to_int (Some ''-12.7'')
      = Some (if True then - \<lfloor>3574732204225331 / 281474976710656 :: rat\<rfloor>
              else \<lfloor>3574732204225331 / 281474976710656 :: rat\<rfloor>)"
    using C4_integer_coercion
      [of "[]" "[]" "[]" "Some ''-12.7''" True "3574732204225331 / 281474976710656"] f
    by blast
  then have w4: "to_int (Some ''-12.7'') = Some (- 12)"
    by (simp only: fl if_True)
  have w5: "to_number_if_possible ''Year'' (Some ''1,234'') = PInt 1234"
    using C4_integer_coercion [of "[]" "[]" "[]" None False 0] y by blast
  from w1 i fp have w1': "to_int (Some ([CHR 0x1C, CHR 0x20] @ ''12.7'' @ [CHR 0x09, CHR 0x1F])) = Some 12"
    "to_float (Some ([CHR 0x1C, CHR 0x20] @ ''12.7'' @ [CHR 0x09, CHR 0x1F]))
       = Some (Finite False (3574732204225331 / 281474976710656))"
    by (simp_all only:)
  from w1' s1 w2 s2 w3 f w4 y w5 show ?thesis
    by blast
qed

text \<open>
  The claim as first stated fails for a currency symbol other than the dollar sign: the
  pound sign (U+00A3) is not stripped, so a cell made of it and \<^verbatim>\<open>12\<close> does not coerce,
  and in an integer-designated column the text is kept.
\<close>

theorem C4_other_currency_symbol_counterexample:
  "to_int (Some (CHR 0xA3 # ''12'')) = None
   \<and> to_int (Some ''$12'') = Some 12
   \<and> to_number_if_possible ''Total Patients'' (Some (CHR 0xA3 # ''12'')) = PStr (CHR 0xA3 # ''12'')"
  by code_simp

end
